theory Spec2Isabelle
  imports Main
begin

section \<open>Errors raised by the checkpoint I/O module\<close>

text \<open>
  Every exception that \<^verbatim>\<open>nemo/lightning/io/pl.py\<close> raises itself, or that the library
  calls it makes can raise, is a value of this type. The constructor names keep the
  Python exception class; where one class is raised at several places the suffix says
  which. The string carried by an error is the offending path or name.
\<close>

datatype error =
    TypeError_storage_options
  | ValueError_map_location
  | FileNotFoundError string
  | ValueError_not_a_directory string
  | AssertionError_ckpt_extension
  | AssertionError_cuda_not_initialized
  | ValueError_empty_name
  | ValueError_invalid_name string
  | ValueError_invalid_suffix string
  | FileExistsError string
  | NotADirectoryError string
  | ValueError_delete_cwd string
  | BackendError string

section \<open>Paths\<close>

text \<open>
  \<^verbatim>\<open>ckpt_to_dir\<close> works on \<^verbatim>\<open>pathlib.Path\<close>. The operations it uses are those of
  \<^verbatim>\<open>PurePosixPath\<close> (CPython 3.11, \<^verbatim>\<open>Lib/pathlib.py\<close>): the constructor, \<^verbatim>\<open>name\<close>,
  \<^verbatim>\<open>suffix\<close>, \<^verbatim>\<open>stem\<close>, \<^verbatim>\<open>with_suffix\<close>, \<^verbatim>\<open>with_name\<close> and \<^verbatim>\<open>__str__\<close>. A parsed path
  is its root (\<^verbatim>\<open>''\<close>, \<^verbatim>\<open>'/'\<close> or \<^verbatim>\<open>'//'\<close>; a POSIX path has no drive) and the list of
  its components after the root.
\<close>

record path =
  root :: string
  tail :: "string list"

text \<open>\<^verbatim>\<open>str.split(sep)\<close> for a one-character separator: never empty.\<close>

fun split_sep :: "char \<Rightarrow> string \<Rightarrow> string list" where
  "split_sep c [] = [[]]"
| "split_sep c (x # xs) =
     (if x = c then [] # split_sep c xs
      else (case split_sep c xs of [] \<Rightarrow> [[x]] | w # ws \<Rightarrow> (x # w) # ws))"

text \<open>\<^verbatim>\<open>sep.join(parts)\<close>.\<close>

fun join_sep :: "char \<Rightarrow> string list \<Rightarrow> string" where
  "join_sep c [] = []"
| "join_sep c [w] = w"
| "join_sep c (w # v # ws) = w @ c # join_sep c (v # ws)"

definition lstrip :: "char \<Rightarrow> string \<Rightarrow> string" where
  "lstrip c s = dropWhile (\<lambda>x. x = c) s"

text \<open>\<^verbatim>\<open>str.rfind(c)\<close>: the index of the last occurrence, or \<open>-1\<close>.\<close>

fun rfind :: "char \<Rightarrow> string \<Rightarrow> int" where
  "rfind c [] = - 1"
| "rfind c (x # xs) =
     (let r = rfind c xs in if 0 \<le> r then r + 1 else if x = c then 0 else - 1)"

text \<open>\<^verbatim>\<open>_PosixFlavour.splitroot\<close>: the root and the rest (the drive is always empty).\<close>

definition splitroot :: "string \<Rightarrow> string \<times> string" where
  "splitroot part =
     (if part \<noteq> [] \<and> hd part = CHR ''/'' then
        (let stripped_part = lstrip (CHR ''/'') part in
         if int (length part) - int (length stripped_part) = 2
         then (''//'', stripped_part)
         else (''/'', stripped_part))
      else ('''', part))"

text \<open>
  \<^verbatim>\<open>_Flavour.parse_parts\<close> on a single string, which is what \<^verbatim>\<open>Path(filepath)\<close> runs
  for a \<^verbatim>\<open>str\<close> argument: empty components and \<^verbatim>\<open>'.'\<close> are dropped. A \<^verbatim>\<open>Path\<close>
  argument is represented by its string form, since \<^verbatim>\<open>Path(str(p)) == p\<close>.
\<close>

definition parse_parts :: "string \<Rightarrow> path" where
  "parse_parts part =
     (if part = [] then \<lparr>root = '''', tail = []\<rparr>
      else
        (let (r, rel) = splitroot part in
         if CHR ''/'' \<in> set rel
         then \<lparr>root = r, tail = filter (\<lambda>x. x \<noteq> [] \<and> x \<noteq> ''.'') (split_sep (CHR ''/'') rel)\<rparr>
         else if rel \<noteq> [] \<and> rel \<noteq> ''.'' then \<lparr>root = r, tail = [rel]\<rparr>
         else \<lparr>root = r, tail = []\<rparr>))"

definition Path :: "string \<Rightarrow> path" where
  "Path filepath = parse_parts filepath"

text \<open>\<^verbatim>\<open>PurePath.__str__\<close>: the root followed by the joined components, or \<^verbatim>\<open>'.'\<close>.\<close>

definition str :: "path \<Rightarrow> string" where
  "str p =
     (let s = root p @ join_sep (CHR ''/'') (tail p) in if s = [] then ''.'' else s)"

definition name :: "path \<Rightarrow> string" where
  "name p = (if tail p = [] then '''' else last (tail p))"

definition suffix :: "path \<Rightarrow> string" where
  "suffix p =
     (let i = rfind (CHR ''.'') (name p) in
      if 0 < i \<and> i < int (length (name p)) - 1 then drop (nat i) (name p) else '''')"

definition stem :: "path \<Rightarrow> string" where
  "stem p =
     (let i = rfind (CHR ''.'') (name p) in
      if 0 < i \<and> i < int (length (name p)) - 1 then take (nat i) (name p) else name p)"

definition with_name :: "path \<Rightarrow> string \<Rightarrow> error + path" where
  "with_name p nm =
     (if name p = [] then Inl ValueError_empty_name
      else
        (let q = parse_parts nm in
         if nm = [] \<or> last nm = CHR ''/'' \<or> root q \<noteq> [] \<or> length (tail q) \<noteq> 1
         then Inl (ValueError_invalid_name nm)
         else Inr (p\<lparr>tail := butlast (tail p) @ [nm]\<rparr>)))"

definition with_suffix :: "path \<Rightarrow> string \<Rightarrow> error + path" where
  "with_suffix p suf =
     (if CHR ''/'' \<in> set suf then Inl (ValueError_invalid_suffix suf)
      else if (suf \<noteq> [] \<and> take 1 suf \<noteq> ''.'') \<or> suf = ''.''
      then Inl (ValueError_invalid_suffix suf)
      else if name p = [] then Inl ValueError_empty_name
      else
        (let old_suffix = suffix p;
             nm = (if old_suffix = [] then name p @ suf
                   else take (length (name p) - length old_suffix) (name p) @ suf)
         in Inr (p\<lparr>tail := butlast (tail p) @ [nm]\<rparr>)))"

text \<open>
  \<^verbatim>\<open>ckpt_to_dir\<close> (lines 173-188): append \<^verbatim>\<open>.ckpt\<close> unless the suffix already is
  \<^verbatim>\<open>.ckpt\<close>, assert the suffix, and replace the name by its stem.
\<close>

definition ckpt_to_dir :: "string \<Rightarrow> error + path" where
  "ckpt_to_dir filepath =
     (let p = Path filepath in
      case (if suffix p \<noteq> ''.ckpt'' then with_suffix p (suffix p @ ''.ckpt'') else Inr p) of
        Inl e \<Rightarrow> Inl e
      | Inr p' \<Rightarrow>
          if suffix p' \<noteq> ''.ckpt'' then Inl AssertionError_ckpt_extension
          else with_name p' (stem p'))"

section \<open>Checkpoint payloads and the device fix-up\<close>

text \<open>
  A checkpoint is a nest of dicts and lists whose leaves are tensors or other objects.
  A tensor is its device and its contents (of an arbitrary type \<open>'a\<close>); a dict keeps
  its items in insertion order.
\<close>

datatype device = CPU | CUDA nat | OtherDevice string

datatype 'a pyobj =
    PyDict "(string \<times> 'a pyobj) list"
  | PyList "'a pyobj list"
  | PyTensor device 'a
  | PyOther string

fun is_cuda :: "device \<Rightarrow> bool" where
  "is_cuda (CUDA i) = True"
| "is_cuda d = False"

text \<open>
  \<^verbatim>\<open>megatron.core.dist_checkpointing.dict_utils.dict_list_map_outplace\<close>: a new dict for
  a dict, a new list for a list, and \<open>f\<close> applied to anything else.
\<close>

primrec dict_list_map_outplace :: "('a pyobj \<Rightarrow> 'a pyobj) \<Rightarrow> 'a pyobj \<Rightarrow> 'a pyobj" where
  "dict_list_map_outplace f (PyDict kvs) =
     PyDict (map (map_prod id (dict_list_map_outplace f)) kvs)"
| "dict_list_map_outplace f (PyList xs) = PyList (map (dict_list_map_outplace f) xs)"
| "dict_list_map_outplace f (PyTensor d x) = f (PyTensor d x)"
| "dict_list_map_outplace f (PyOther s) = f (PyOther s)"

text \<open>The state of \<^verbatim>\<open>torch.cuda\<close> in the current process.\<close>

record cuda =
  is_initialized :: bool
  current_device :: nat

text \<open>\<^verbatim>\<open>_fix_device\<close> (lines 165-168); \<^verbatim>\<open>t.to(cur_dev)\<close> keeps the contents.\<close>

fun fix_device :: "device \<Rightarrow> 'a pyobj \<Rightarrow> 'a pyobj" where
  "fix_device cur_dev (PyTensor d x) =
     (if is_cuda d \<and> d \<noteq> cur_dev then PyTensor cur_dev x else PyTensor d x)"
| "fix_device cur_dev t = t"

text \<open>\<^verbatim>\<open>_fix_tensors_device\<close> (lines 159-170).\<close>

definition fix_tensors_device :: "cuda \<Rightarrow> 'a pyobj \<Rightarrow> error + 'a pyobj" where
  "fix_tensors_device cu ckpt =
     (if \<not> is_initialized cu then Inl AssertionError_cuda_not_initialized
      else
        (let cur_dev = CUDA (current_device cu)
         in Inr (dict_list_map_outplace (fix_device cur_dev) ckpt)))"

text \<open>Every tensor leaf of a payload is on the device \<open>dev\<close>.\<close>

primrec tensors_on :: "device \<Rightarrow> 'a pyobj \<Rightarrow> bool" where
  "tensors_on dev (PyDict kvs) = list_all (pred_prod (\<lambda>k. True) (tensors_on dev)) kvs"
| "tensors_on dev (PyList xs) = list_all (tensors_on dev) xs"
| "tensors_on dev (PyTensor d x) = (d = dev)"
| "tensors_on dev (PyOther s) = True"

section \<open>The filesystem and the sharded-serialization backend\<close>

text \<open>
  Of the filesystem returned by \<^verbatim>\<open>get_filesystem\<close> the module uses \<^verbatim>\<open>exists\<close>,
  \<^verbatim>\<open>isdir\<close>, \<^verbatim>\<open>makedirs(exist_ok=True)\<close> and \<^verbatim>\<open>rm(recursive=True)\<close>. What the
  filesystem holds is what the two queries see: a file or a directory at a parsed path, so
  that \<^verbatim>\<open>a/b\<close>, \<^verbatim>\<open>a//b\<close> and \<^verbatim>\<open>a/b/\<close> are one entry. The two operations that change it
  are parameters of the model: each may fail, and what it creates or deletes, and in what
  state a failure leaves the filesystem, is the filesystem's own business.
\<close>

datatype node = File | Dir

type_synonym filesystem = "path \<Rightarrow> node option"

definition exists_fs :: "filesystem \<Rightarrow> string \<Rightarrow> bool" where
  "exists_fs f s = (f (Path s) \<noteq> None)"

definition isdir :: "filesystem \<Rightarrow> string \<Rightarrow> bool" where
  "isdir f s = (f (Path s) = Some Dir)"

record fsspec =
  makedirs :: "filesystem \<Rightarrow> string \<Rightarrow> (error + unit) \<times> filesystem"
  rm :: "filesystem \<Rightarrow> string \<Rightarrow> (error + unit) \<times> filesystem"

text \<open>
  A filesystem to run the model on, after \<^verbatim>\<open>fsspec\<close>'s \<^verbatim>\<open>LocalFileSystem\<close> with no links
  and the working directory \<open>cwd\<close>: \<^verbatim>\<open>makedirs\<close> creates a directory and its ancestors
  and fails on a file in the way; \<^verbatim>\<open>rm\<close> deletes a path with everything below it, fails
  on a path that is absent, and refuses to delete the working directory.
\<close>

text \<open>The strict ancestors of a path below its root, outermost first.\<close>

definition ancestors :: "path \<Rightarrow> path list" where
  "ancestors p = map (\<lambda>k. p\<lparr>tail := take k (tail p)\<rparr>) [1..<length (tail p)]"

text \<open>\<open>q\<close> is \<open>p\<close> or lies below it.\<close>

definition is_under :: "path \<Rightarrow> path \<Rightarrow> bool" where
  "is_under p q = (root q = root p \<and> take (length (tail p)) (tail q) = tail p)"

definition local_makedirs :: "filesystem \<Rightarrow> string \<Rightarrow> (error + unit) \<times> filesystem" where
  "local_makedirs f s =
     (let p = Path s in
      if f p = Some File then (Inl (FileExistsError s), f)
      else if list_ex (\<lambda>a. f a = Some File) (ancestors p) then (Inl (NotADirectoryError s), f)
      else (Inr (), (\<lambda>q. if q = p \<or> List.member (ancestors p) q then Some Dir else f q)))"

definition local_rm :: "path \<Rightarrow> filesystem \<Rightarrow> string \<Rightarrow> (error + unit) \<times> filesystem" where
  "local_rm cwd f s =
     (let p = Path s in
      if f p = None then (Inl (FileNotFoundError s), f)
      else if f p = Some Dir \<and> p = cwd then (Inl (ValueError_delete_cwd s), f)
      else (Inr (), (\<lambda>q. if is_under p q then None else f q)))"

definition local_fs :: "path \<Rightarrow> fsspec" where
  "local_fs cwd = \<lparr>makedirs = local_makedirs, rm = local_rm cwd\<rparr>"

text \<open>
  \<^verbatim>\<open>megatron.core.dist_checkpointing\<close> is a parameter of the model: its validity probe
  reads the filesystem and answers or fails, its \<^verbatim>\<open>save\<close> may change the filesystem and
  may fail, its \<^verbatim>\<open>load\<close> returns a payload or fails.
\<close>

type_synonym strategy = "string \<times> nat"

record 'a dist_checkpointing =
  check_is_distributed_checkpoint :: "filesystem \<Rightarrow> string \<Rightarrow> error + bool"
  save :: "'a pyobj \<Rightarrow> string \<Rightarrow> strategy \<Rightarrow> filesystem \<Rightarrow> (error + unit) \<times> filesystem"
  load :: "'a pyobj option \<Rightarrow> string \<Rightarrow> filesystem \<Rightarrow> error + 'a pyobj"

text \<open>
  Every call that leaves the module is recorded, with its arguments, in the order made.
\<close>

datatype 'a event =
    Exists string
  | Isdir string
  | Makedirs string
  | Rm string
  | Check_is_distributed_checkpoint string
  | Dist_save "'a pyobj" string strategy
  | Dist_load "'a pyobj option" string

record 'a world =
  files :: filesystem
  trace :: "'a event list"

definition emit :: "'a event \<Rightarrow> 'a world \<Rightarrow> 'a world" where
  "emit e w = w\<lparr>trace := trace w @ [e]\<rparr>"

definition call_exists :: "string \<Rightarrow> 'a world \<Rightarrow> bool \<times> 'a world" where
  "call_exists s w = (exists_fs (files w) s, emit (Exists s) w)"

definition call_isdir :: "string \<Rightarrow> 'a world \<Rightarrow> bool \<times> 'a world" where
  "call_isdir s w = (isdir (files w) s, emit (Isdir s) w)"

definition call_makedirs :: "fsspec \<Rightarrow> string \<Rightarrow> 'a world \<Rightarrow> (error + unit) \<times> 'a world" where
  "call_makedirs fs s w =
     (case makedirs fs (files w) s of
        (r, f) \<Rightarrow> (r, emit (Makedirs s) (w\<lparr>files := f\<rparr>)))"

definition call_rm :: "fsspec \<Rightarrow> string \<Rightarrow> 'a world \<Rightarrow> (error + unit) \<times> 'a world" where
  "call_rm fs s w =
     (case rm fs (files w) s of
        (r, f) \<Rightarrow> (r, emit (Rm s) (w\<lparr>files := f\<rparr>)))"

definition call_check ::
  "'a dist_checkpointing \<Rightarrow> string \<Rightarrow> 'a world \<Rightarrow> (error + bool) \<times> 'a world" where
  "call_check dc s w =
     (check_is_distributed_checkpoint dc (files w) s, emit (Check_is_distributed_checkpoint s) w)"

definition call_save ::
  "'a dist_checkpointing \<Rightarrow> 'a pyobj \<Rightarrow> string \<Rightarrow> strategy \<Rightarrow> 'a world \<Rightarrow> (error + unit) \<times> 'a world" where
  "call_save dc ckpt s st w =
     (case save dc ckpt s st (files w) of
        (r, f) \<Rightarrow> (r, emit (Dist_save ckpt s st) (w\<lparr>files := f\<rparr>)))"

definition call_load ::
  "'a dist_checkpointing \<Rightarrow> 'a pyobj option \<Rightarrow> string \<Rightarrow> 'a world \<Rightarrow> (error + 'a pyobj) \<times> 'a world" where
  "call_load dc ssd s w = (load dc ssd s (files w), emit (Dist_load ssd s) w)"

section \<open>MegatronCheckpointIO\<close>

record MegatronCheckpointIO =
  save_ckpt_format :: string
  save_sharded_strategy :: strategy

text \<open>\<^verbatim>\<open>__init__\<close> and \<^verbatim>\<open>_determine_dist_ckpt_save_strategy\<close> (lines 57-62, 148-156).\<close>

definition determine_dist_ckpt_save_strategy :: "string \<Rightarrow> strategy" where
  "determine_dist_ckpt_save_strategy fmt = (fmt, 1)"

definition init :: "string \<Rightarrow> MegatronCheckpointIO" where
  "init fmt =
     \<lparr>save_ckpt_format = fmt, save_sharded_strategy = determine_dist_ckpt_save_strategy fmt\<rparr>"

text \<open>
  \<^verbatim>\<open>save_checkpoint\<close> (lines 65-98). The \<^verbatim>\<open>and\<close> of line 89 is short-circuit: the
  backend's probe runs only on a directory, and an error it raises leaves the method.
\<close>

definition save_checkpoint ::
  "'a dist_checkpointing \<Rightarrow> fsspec \<Rightarrow> MegatronCheckpointIO \<Rightarrow> 'a pyobj \<Rightarrow> string \<Rightarrow> 'o option \<Rightarrow>
   'a world \<Rightarrow> (error + unit) \<times> 'a world" where
  "save_checkpoint dc fs self checkpoint pth storage_options w =
     (if storage_options \<noteq> None then (Inl TypeError_storage_options, w)
      else
        (case ckpt_to_dir pth of
           Inl e \<Rightarrow> (Inl e, w)
         | Inr checkpoint_dir \<Rightarrow>
             (let d = str checkpoint_dir;
                  (b1, w1) = call_isdir d w;
                  (r2, w2) = (if b1 then call_check dc d w1 else (Inr False, w1))
              in case r2 of
                   Inl e \<Rightarrow> (Inl e, w2)
                 | Inr b2 \<Rightarrow>
                     if b1 \<and> b2 then (Inr (), w2)
                     else
                       (case call_makedirs fs d w2 of
                          (Inl e, w3) \<Rightarrow> (Inl e, w3)
                        | (Inr u, w3) \<Rightarrow>
                            call_save dc checkpoint d (save_sharded_strategy self) w3))))"

text \<open>\<^verbatim>\<open>load_checkpoint\<close> (lines 101-133).\<close>

definition load_checkpoint ::
  "'a dist_checkpointing \<Rightarrow> cuda \<Rightarrow> string \<Rightarrow> 'a pyobj option \<Rightarrow> 'm option \<Rightarrow>
   'a world \<Rightarrow> (error + 'a pyobj) \<times> 'a world" where
  "load_checkpoint dc cu pth sharded_state_dict map_location w =
     (if map_location \<noteq> None then (Inl ValueError_map_location, w)
      else
        (case call_exists pth w of
           (b1, w1) \<Rightarrow>
             if \<not> b1 then (Inl (FileNotFoundError pth), w1)
             else
               (case call_isdir pth w1 of
                  (b2, w2) \<Rightarrow>
                    if \<not> b2 then (Inl (ValueError_not_a_directory pth), w2)
                    else
                      (case call_load dc sharded_state_dict pth w2 of
                         (Inl e, w3) \<Rightarrow> (Inl e, w3)
                       | (Inr checkpoint, w3) \<Rightarrow> (fix_tensors_device cu checkpoint, w3)))))"

text \<open>\<^verbatim>\<open>remove_checkpoint\<close> (lines 136-146).\<close>

definition remove_checkpoint :: "fsspec \<Rightarrow> string \<Rightarrow> 'a world \<Rightarrow> (error + unit) \<times> 'a world" where
  "remove_checkpoint fs pth w =
     (case call_exists pth w of
        (b, w1) \<Rightarrow> if b then call_rm fs pth w1 else (Inr (), w1))"

text \<open>\<^verbatim>\<open>is_distributed_ckpt\<close> (lines 191-212).\<close>

definition is_distributed_ckpt ::
  "'a dist_checkpointing \<Rightarrow> string \<Rightarrow> 'a world \<Rightarrow> (error + bool) \<times> 'a world" where
  "is_distributed_ckpt dc pth w =
     (case ckpt_to_dir pth of
        Inl e \<Rightarrow> (Inl e, w)
      | Inr checkpoint_dir \<Rightarrow>
          (let d = str checkpoint_dir;
               (b1, w1) = call_isdir d w;
               (r2, w2) = (if b1 then call_check dc d w1 else (Inr False, w1))
           in case r2 of
                Inl e \<Rightarrow> (Inl e, w2)
              | Inr b2 \<Rightarrow> if b1 \<and> b2 then (Inr True, w2) else (Inr False, w2)))"

text \<open>
  A backend to run the model on: a directory is a complete checkpoint when it holds
  the file \<^verbatim>\<open>metadata.json\<close>, and the probe fails when \<^verbatim>\<open>metadata.json\<close> is there but is
  a directory, which cannot be opened; \<^verbatim>\<open>save\<close> writes that file; \<^verbatim>\<open>load\<close> returns a
  payload with one tensor on CUDA device 0.
\<close>

definition example_backend :: "nat dist_checkpointing" where
  "example_backend =
     \<lparr>check_is_distributed_checkpoint =
        (\<lambda>f d. case f (Path (d @ ''/metadata.json'')) of
                  None \<Rightarrow> Inr False
                | Some File \<Rightarrow> Inr True
                | Some Dir \<Rightarrow> Inl (BackendError ''IsADirectoryError'')),
      save = (\<lambda>ckpt d st f. (Inr (), f(Path (d @ ''/metadata.json'') \<mapsto> File))),
      load = (\<lambda>ssd d f. Inr (PyDict [(''w'', PyTensor (CUDA 0) 7), (''step'', PyOther ''10'')]))\<rparr>"

definition empty_world :: "nat world" where
  "empty_world = \<lparr>files = Map.empty, trace = []\<rparr>"

text \<open>
  Filesystems to run the model on: one holding the complete checkpoint \<^verbatim>\<open>step10\<close>, one
  holding a plain file, one whose complete checkpoint directory is itself named
  \<^verbatim>\<open>a.ckpt\<close>, one holding the working directory \<^verbatim>\<open>/work\<close>, one whose directory
  \<^verbatim>\<open>step10\<close> holds a \<^verbatim>\<open>metadata.json\<close> that is a directory; and a process whose CUDA
  runtime is initialized on device 2.
\<close>

definition work_world :: "nat world" where
  "work_world = \<lparr>files = [Path ''/work'' \<mapsto> Dir], trace = []\<rparr>"

definition broken_world :: "nat world" where
  "broken_world =
     \<lparr>files = [Path ''step10'' \<mapsto> Dir, Path ''step10/metadata.json'' \<mapsto> Dir], trace = []\<rparr>"

definition complete_world :: "nat world" where
  "complete_world =
     \<lparr>files = [Path ''step10'' \<mapsto> Dir, Path ''step10/metadata.json'' \<mapsto> File], trace = []\<rparr>"

definition plain_file_world :: "nat world" where
  "plain_file_world = \<lparr>files = [Path ''model.pt'' \<mapsto> File], trace = []\<rparr>"

definition doubled_marker_world :: "nat world" where
  "doubled_marker_world =
     \<lparr>files = [Path ''a.ckpt'' \<mapsto> Dir, Path ''a.ckpt/metadata.json'' \<mapsto> File], trace = []\<rparr>"

definition cuda2 :: cuda where
  "cuda2 = \<lparr>is_initialized = True, current_device = 2\<rparr>"

text \<open>
  What the constructor guarantees of every path it returns: the root is one of the
  three POSIX roots, and no component is empty, is \<^verbatim>\<open>'.'\<close>, or holds a separator.
\<close>

definition wf_name :: "string \<Rightarrow> bool" where
  "wf_name x = (x \<noteq> [] \<and> x \<noteq> ''.'' \<and> CHR ''/'' \<notin> set x)"

definition wf_path :: "path \<Rightarrow> bool" where
  "wf_path p = ((root p = [] \<or> root p = ''/'' \<or> root p = ''//'') \<and> list_all wf_name (tail p))"

section \<open>Properties of the string and path operations\<close>

lemma split_sep_nonempty: "split_sep c s \<noteq> []"
  by (induction s) (auto split: list.splits)

lemma split_sep_free: "w \<in> set (split_sep c s) \<Longrightarrow> c \<notin> set w"
  by (induction s arbitrary: w) (auto split: if_splits list.splits)

lemma split_sep_none: "c \<notin> set s \<Longrightarrow> split_sep c s = [s]"
  by (induction s) auto

lemma split_sep_append:
  "c \<notin> set w \<Longrightarrow> split_sep c (w @ c # s) = w # split_sep c s"
  by (induction w) auto

lemma split_sep_join:
  "ws \<noteq> [] \<Longrightarrow> \<forall>w \<in> set ws. c \<notin> set w \<Longrightarrow> split_sep c (join_sep c ws) = ws"
  by (induction c ws rule: join_sep.induct) (auto simp: split_sep_none split_sep_append)

lemma join_sep_snoc:
  "ws \<noteq> [] \<Longrightarrow> join_sep c (butlast ws @ [last ws @ s]) = join_sep c ws @ s"
  by (induction c ws rule: join_sep.induct) auto

lemma join_sep_hd:
  "ws \<noteq> [] \<Longrightarrow> hd ws \<noteq> [] \<Longrightarrow> join_sep c ws \<noteq> [] \<and> hd (join_sep c ws) = hd (hd ws)"
  by (induction c ws rule: join_sep.induct) auto

lemma rfind_bounds: "- 1 \<le> rfind c s \<and> rfind c s < int (length s)"
  by (induction s) (auto simp: Let_def)

lemma rfind_nth: "0 \<le> rfind c s \<Longrightarrow> s ! nat (rfind c s) = c"
  by (induction s) (auto simp: Let_def nat_add_distrib split: if_splits)

lemma rfind_absent: "c \<notin> set s \<Longrightarrow> rfind c s = - 1"
  by (induction s) (auto simp: Let_def)

lemma rfind_last: "c \<notin> set ys \<Longrightarrow> rfind c (xs @ c # ys) = int (length xs)"
  by (induction xs) (auto simp: Let_def rfind_absent)


lemma name_snoc: "name (p\<lparr>tail := ws @ [n]\<rparr>) = n"
  by (simp add: name_def)

lemma wf_parse_parts: "wf_path (parse_parts s)"
proof -
  have "list_all wf_name (filter (\<lambda>x. x \<noteq> [] \<and> x \<noteq> ''.'') (split_sep (CHR ''/'') r))" for r
    by (auto simp: list_all_iff wf_name_def dest: split_sep_free)
  then show ?thesis
    by (auto simp: parse_parts_def splitroot_def wf_path_def wf_name_def Let_def)
qed

lemma wf_Path: "wf_path (Path s)"
  by (simp add: Path_def wf_parse_parts)

lemma name_wf:
  assumes "wf_path p" "name p \<noteq> []"
  shows "wf_name (name p)" and "tail p \<noteq> []" and "butlast (tail p) @ [name p] = tail p"
  using assms by (auto simp: name_def wf_path_def list_all_iff split: if_splits)

lemma stem_suffix: "stem p @ suffix p = name p"
  by (simp add: stem_def suffix_def Let_def)

lemma suffix_shape: "suffix p = [] \<or> (\<exists>r. suffix p = CHR ''.'' # r \<and> r \<noteq> [])"
proof (cases "0 < rfind (CHR ''.'') (name p) \<and> rfind (CHR ''.'') (name p) < int (length (name p)) - 1")
  case True
  define i where "i = nat (rfind (CHR ''.'') (name p))"
  from True have i: "i < length (name p)" "Suc i < length (name p)" and nth: "name p ! i = CHR ''.''"
    using rfind_nth [of "CHR ''.''" "name p"] by (auto simp: i_def)
  have "suffix p = drop i (name p)" using True by (simp add: suffix_def i_def)
  also have "\<dots> = name p ! i # drop (Suc i) (name p)" using i by (simp add: Cons_nth_drop_Suc)
  finally show ?thesis using i nth by simp
next
  case False
  then show ?thesis by (auto simp: suffix_def Let_def)
qed

lemma stem_shape: "name p \<noteq> [] \<Longrightarrow> stem p \<noteq> []"
  by (auto simp: stem_def Let_def)

lemma stem_free: "c \<notin> set (name p) \<Longrightarrow> c \<notin> set (stem p)"
  by (auto simp: stem_def Let_def dest: in_set_takeD)

lemma suffix_free: "c \<notin> set (name p) \<Longrightarrow> c \<notin> set (suffix p)"
  by (auto simp: suffix_def Let_def dest: in_set_dropD)

lemma suffix_stem_marker:
  assumes "name q = n @ ''.ckpt''" "n \<noteq> []"
  shows "suffix q = ''.ckpt''" and "stem q = n"
proof -
  have "rfind (CHR ''.'') (n @ CHR ''.'' # ''ckpt'') = int (length n)"
    by (rule rfind_last) simp
  then have r: "rfind (CHR ''.'') (name q) = int (length n)" using assms by simp
  show "suffix q = ''.ckpt''" using assms(2) by (simp add: suffix_def r Let_def) (simp add: assms(1))
  show "stem q = n" using assms(2) by (simp add: stem_def r Let_def) (simp add: assms(1))
qed

lemma with_suffix_marker:
  assumes "wf_path p" "name p \<noteq> []"
  shows "with_suffix p (suffix p @ ''.ckpt'') = Inr (p\<lparr>tail := butlast (tail p) @ [name p @ ''.ckpt'']\<rparr>)"
proof -
  have free: "CHR ''/'' \<notin> set (suffix p @ ''.ckpt'')"
    using name_wf(1) [OF assms] suffix_free [of "CHR ''/''" p] by (auto simp: wf_name_def)
  have dot: "take 1 (suffix p @ ''.ckpt'') = ''.''" "suffix p @ ''.ckpt'' \<noteq> ''.''"
    using suffix_shape [of p] by auto
  have nm: "take (length (name p) - length (suffix p)) (name p) @ suffix p = name p"
    by (metis stem_suffix append_eq_conv_conj add_diff_cancel_right' length_append)
  show ?thesis
    using free dot assms(2) nm by (auto simp: with_suffix_def Let_def)
qed

lemma parse_parts_name: "wf_name nm \<Longrightarrow> parse_parts nm = \<lparr>root = [], tail = [nm]\<rparr>"
  by (cases nm) (auto simp: parse_parts_def splitroot_def wf_name_def)

lemma with_name_ok:
  "name p \<noteq> [] \<Longrightarrow> wf_name nm \<Longrightarrow> with_name p nm = Inr (p\<lparr>tail := butlast (tail p) @ [nm]\<rparr>)"
proof -
  assume n: "name p \<noteq> []" and w: "wf_name nm"
  from w have "nm \<noteq> []" and "last nm \<noteq> CHR ''/''"
    by (auto simp: wf_name_def dest: last_in_set)
  then show ?thesis
    using n by (simp add: with_name_def parse_parts_name [OF w])
qed

lemma with_name_dot: "name p \<noteq> [] \<Longrightarrow> with_name p ''.'' = Inl (ValueError_invalid_name ''.'')"
  by (simp add: with_name_def parse_parts_def splitroot_def)


lemma ckpt_to_dir_empty_name:
  "name (Path P) = [] \<Longrightarrow> ckpt_to_dir P = Inl ValueError_empty_name"
  by (simp add: ckpt_to_dir_def suffix_def with_suffix_def rfind.simps Let_def)

lemma ckpt_to_dir_unmarked:
  assumes "name (Path P) \<noteq> []" "suffix (Path P) \<noteq> ''.ckpt''"
  shows "ckpt_to_dir P = Inr (Path P)"
proof -
  define p where "p = Path P"
  define p' where "p' = p\<lparr>tail := butlast (tail p) @ [name p @ ''.ckpt'']\<rparr>"
  have wf: "wf_path p" and n: "name p \<noteq> []" using assms by (simp_all add: p_def wf_Path)
  have ws: "with_suffix p (suffix p @ ''.ckpt'') = Inr p'"
    unfolding p'_def by (rule with_suffix_marker [OF wf n])
  have n': "name p' = name p @ ''.ckpt''" by (simp add: p'_def name_snoc)
  have s': "suffix p' = ''.ckpt''" and st: "stem p' = name p"
    using suffix_stem_marker [OF n' n] by simp_all
  have "with_name p' (name p) = Inr (p'\<lparr>tail := butlast (tail p') @ [name p]\<rparr>)"
    using n' name_wf(1) [OF wf n] by (intro with_name_ok) simp_all
  also have "p'\<lparr>tail := butlast (tail p') @ [name p]\<rparr> = p"
    using name_wf(3) [OF wf n] by (simp add: p'_def)
  finally have wn: "with_name p' (stem p') = Inr p" by (simp add: st)
  show ?thesis
    using assms(2) ws s' wn by (simp add: ckpt_to_dir_def Let_def p_def [symmetric])
qed

lemma ckpt_to_dir_marked:
  assumes "suffix (Path P) = ''.ckpt''"
  shows "ckpt_to_dir P =
    (if stem (Path P) = ''.'' then Inl (ValueError_invalid_name ''.'')
     else Inr ((Path P)\<lparr>tail := butlast (tail (Path P)) @ [stem (Path P)]\<rparr>))"
proof -
  define p where "p = Path P"
  have wf: "wf_path p" by (simp add: p_def wf_Path)
  have n: "name p \<noteq> []" using assms stem_suffix [of p] by (auto simp: p_def)
  have c: "ckpt_to_dir P = with_name p (stem p)"
    using assms by (simp add: ckpt_to_dir_def Let_def p_def)
  show ?thesis
  proof (cases "stem p = ''.''")
    case True
    then show ?thesis using c n by (simp add: with_name_dot p_def)
  next
    case False
    have "wf_name (stem p)"
      using False stem_shape [OF n] stem_free [of "CHR ''/''" p] name_wf(1) [OF wf n]
      by (simp add: wf_name_def)
    then show ?thesis using False c n by (simp add: with_name_ok p_def)
  qed
qed


lemma splitroot_rooted:
  assumes "r = [] \<or> r = ''/'' \<or> r = ''//''" "rest \<noteq> []" "hd rest \<noteq> CHR ''/''"
  shows "splitroot (r @ rest) = (r, rest)"
proof -
  have dw: "dropWhile (\<lambda>x. x = CHR ''/'') rest = rest"
    using assms(2,3) by (cases rest) auto
  from assms(1) show ?thesis
  proof (elim disjE)
    assume "r = []"
    then show ?thesis using assms(2,3) by (simp add: splitroot_def)
  next
    assume "r = ''/''"
    then show ?thesis by (simp add: splitroot_def lstrip_def dw)
  next
    assume "r = ''//''"
    then show ?thesis by (simp add: splitroot_def lstrip_def dw)
  qed
qed

lemma parse_parts_join:
  assumes r: "r = [] \<or> r = ''/'' \<or> r = ''//''" and ne: "ws \<noteq> []" and wf: "list_all wf_name ws"
  shows "parse_parts (r @ join_sep (CHR ''/'') ws) = \<lparr>root = r, tail = ws\<rparr>"
proof -
  define rest where "rest = join_sep (CHR ''/'') ws"
  have free: "\<forall>w \<in> set ws. CHR ''/'' \<notin> set w"
    using wf by (simp add: list_all_iff wf_name_def)
  have hdws: "hd ws \<noteq> []" "hd (hd ws) \<noteq> CHR ''/''"
    using ne wf by (cases ws; cases "hd ws"; auto simp: wf_name_def)+
  have rest: "rest \<noteq> []" "hd rest \<noteq> CHR ''/''"
    using join_sep_hd [OF ne hdws(1), of "CHR ''/''"] hdws(2) by (simp_all add: rest_def)
  have sr: "splitroot (r @ rest) = (r, rest)"
    by (rule splitroot_rooted [OF r rest])
  have sp: "split_sep (CHR ''/'') rest = ws"
    unfolding rest_def by (rule split_sep_join [OF ne free])
  have keep: "filter (\<lambda>x. x \<noteq> [] \<and> x \<noteq> ''.'') ws = ws"
    using wf by (simp add: list_all_iff wf_name_def)
  show ?thesis
  proof (cases "CHR ''/'' \<in> set rest")
    case True
    then show ?thesis
      using rest(1) sr sp keep by (simp add: parse_parts_def rest_def [symmetric])
  next
    case False
    then have "ws = [rest]" using sp by (simp add: split_sep_none)
    moreover from this wf have "rest \<noteq> ''.''" by (auto simp: wf_name_def)
    ultimately show ?thesis
      using False rest(1) sr by (simp add: parse_parts_def rest_def [symmetric])
  qed
qed

lemma wf_name_append: "wf_name x \<Longrightarrow> CHR ''/'' \<notin> set s \<Longrightarrow> wf_name (x @ s)"
  by (cases x) (auto simp: wf_name_def)

lemma Path_str_append:
  assumes wf: "wf_path p" and ne: "tail p \<noteq> []" and s: "CHR ''/'' \<notin> set s"
  shows "Path (str p @ s) = p\<lparr>tail := butlast (tail p) @ [last (tail p) @ s]\<rparr>"
proof -
  define ws where "ws = butlast (tail p) @ [last (tail p) @ s]"
  have r: "root p = [] \<or> root p = ''/'' \<or> root p = ''//''"
    using wf by (simp add: wf_path_def)
  have all: "list_all wf_name (tail p)" using wf by (simp add: wf_path_def)
  then have "wf_name (last (tail p))" using ne by (simp add: list_all_iff)
  then have "wf_name (last (tail p) @ s)" using s by (rule wf_name_append)
  moreover have "list_all wf_name (butlast (tail p))"
    using all by (auto simp: list_all_iff dest: in_set_butlastD)
  ultimately have wfws: "list_all wf_name ws" by (simp add: ws_def)
  have j: "join_sep (CHR ''/'') ws = join_sep (CHR ''/'') (tail p) @ s"
    unfolding ws_def by (rule join_sep_snoc [OF ne])
  have "hd (tail p) \<noteq> []" using all ne by (cases "tail p") (auto simp: wf_name_def)
  then have "join_sep (CHR ''/'') (tail p) \<noteq> []"
    using join_sep_hd [OF ne] by simp
  then have "str p @ s = root p @ join_sep (CHR ''/'') ws"
    by (simp add: str_def Let_def j)
  moreover have "parse_parts (root p @ join_sep (CHR ''/'') ws) = \<lparr>root = root p, tail = ws\<rparr>"
    by (rule parse_parts_join [OF r _ wfws]) (simp add: ws_def)
  ultimately show ?thesis by (simp add: Path_def ws_def)
qed

lemma Path_str:
  assumes "wf_path p" "tail p \<noteq> []"
  shows "Path (str p) = p"
  using Path_str_append [OF assms, of "[]"] assms(2) by simp

lemma ckpt_to_dir_result:
  assumes "ckpt_to_dir P = Inr d"
  shows "wf_path d" and "tail d \<noteq> []" and "wf_name (name d)"
proof -
  have wf: "wf_path (Path P)" by (rule wf_Path)
  have n: "name (Path P) \<noteq> []"
    using assms ckpt_to_dir_empty_name [of P] by auto
  have wn: "wf_name (name (Path P))" by (rule name_wf(1) [OF wf n])
  have "wf_path d \<and> tail d \<noteq> [] \<and> wf_name (name d)"
  proof (cases "suffix (Path P) = ''.ckpt''")
    case False
    then have "d = Path P" using assms ckpt_to_dir_unmarked [OF n] by simp
    then show ?thesis using wf wn name_wf(2) [OF wf n] by simp
  next
    case True
    have ws: "wf_name (stem (Path P))" and
      d: "d = (Path P)\<lparr>tail := butlast (tail (Path P)) @ [stem (Path P)]\<rparr>"
      using assms ckpt_to_dir_marked [OF True] stem_shape [OF n]
        stem_free [of "CHR ''/''" "Path P"] wn
      by (auto simp: wf_name_def split: if_splits)
    have "list_all wf_name (butlast (tail (Path P)))"
      using wf by (auto simp: wf_path_def list_all_iff dest: in_set_butlastD)
    then show ?thesis using wf ws by (simp add: d wf_path_def name_def)
  qed
  then show "wf_path d" and "tail d \<noteq> []" and "wf_name (name d)" by simp_all
qed

lemma ckpt_to_dir_reapply:
  assumes "ckpt_to_dir P = Inr d"
  shows "ckpt_to_dir (str d @ ''.ckpt'') = Inr d"
proof -
  note r = ckpt_to_dir_result [OF assms]
  define q where "q = d\<lparr>tail := butlast (tail d) @ [name d @ ''.ckpt'']\<rparr>"
  have nd: "name d \<noteq> []" using r(3) by (simp add: wf_name_def)
  have P: "Path (str d @ ''.ckpt'') = q"
    using Path_str_append [OF r(1,2), of "''.ckpt''"] r(2) by (simp add: q_def name_def)
  have nq: "name q = name d @ ''.ckpt''" by (simp add: q_def name_snoc)
  note m = suffix_stem_marker [OF nq nd]
  have "stem q \<noteq> ''.''" using r(3) by (simp add: m(2) wf_name_def)
  then have "ckpt_to_dir (str d @ ''.ckpt'') = Inr (q\<lparr>tail := butlast (tail q) @ [name d]\<rparr>)"
    using ckpt_to_dir_marked [of "str d @ ''.ckpt''"] m by (simp add: P)
  also have "q\<lparr>tail := butlast (tail q) @ [name d]\<rparr> = d"
    using name_wf(3) [OF r(1) nd] by (simp add: q_def)
  finally show ?thesis .
qed

lemma ckpt_to_dir_str:
  assumes "ckpt_to_dir P = Inr d" "suffix d \<noteq> ''.ckpt''"
  shows "ckpt_to_dir (str d) = Inr d"
proof -
  note r = ckpt_to_dir_result [OF assms(1)]
  have P: "Path (str d) = d" by (rule Path_str [OF r(1,2)])
  have "name (Path (str d)) \<noteq> []" using r(3) by (simp add: P wf_name_def)
  then have "ckpt_to_dir (str d) = Inr (Path (str d))"
    by (rule ckpt_to_dir_unmarked) (simp add: P assms(2))
  then show ?thesis by (simp add: P)
qed


section \<open>The path convention\<close>

text \<open>
  Claim C2, as amended. For every checkpoint path whose final component is not empty
  and whose suffix is not \<^verbatim>\<open>.ckpt\<close>, \<^verbatim>\<open>ckpt_to_dir\<close> first appends the marker to the
  name and then strips it again, so the directory is the path itself. When the suffix
  already is \<^verbatim>\<open>.ckpt\<close> (and the name is not \<^verbatim>\<open>..ckpt\<close>) nothing is appended: the marker is
  stripped and the directory is the path with its name replaced by the stem, which is
  not the path itself.
\<close>

theorem ckpt_to_dir_keeps_unmarked_path:
  "(name (Path P) \<noteq> [] \<and> suffix (Path P) \<noteq> ''.ckpt'' \<longrightarrow>
      with_suffix (Path P) (suffix (Path P) @ ''.ckpt'') =
        Inr ((Path P)\<lparr>tail := butlast (tail (Path P)) @ [name (Path P) @ ''.ckpt'']\<rparr>) \<and>
      ckpt_to_dir P = Inr (Path P)) \<and>
   (suffix (Path P) = ''.ckpt'' \<and> stem (Path P) \<noteq> ''.'' \<longrightarrow>
      ckpt_to_dir P = Inr ((Path P)\<lparr>tail := butlast (tail (Path P)) @ [stem (Path P)]\<rparr>) \<and>
      ckpt_to_dir P \<noteq> Inr (Path P))"
proof -
  define p where "p = Path P"
  have wf: "wf_path p" by (simp add: p_def wf_Path)
  have A: "with_suffix p (suffix p @ ''.ckpt'') =
        Inr (p\<lparr>tail := butlast (tail p) @ [name p @ ''.ckpt'']\<rparr>) \<and> ckpt_to_dir P = Inr p"
    if a: "name p \<noteq> [] \<and> suffix p \<noteq> ''.ckpt''"
  proof
    show "with_suffix p (suffix p @ ''.ckpt'') =
        Inr (p\<lparr>tail := butlast (tail p) @ [name p @ ''.ckpt'']\<rparr>)"
      using a by (intro with_suffix_marker [OF wf]) simp
    show "ckpt_to_dir P = Inr p"
      unfolding p_def by (rule ckpt_to_dir_unmarked) (use a in \<open>simp_all add: p_def\<close>)
  qed
  have B: "ckpt_to_dir P = Inr (p\<lparr>tail := butlast (tail p) @ [stem p]\<rparr>) \<and> ckpt_to_dir P \<noteq> Inr p"
    if a: "suffix p = ''.ckpt'' \<and> stem p \<noteq> ''.''"
  proof
    have m: "suffix (Path P) = ''.ckpt''" using a by (simp add: p_def)
    show c: "ckpt_to_dir P = Inr (p\<lparr>tail := butlast (tail p) @ [stem p]\<rparr>)"
      using ckpt_to_dir_marked [OF m] a by (simp add: p_def)
    have n: "name p \<noteq> []" using a stem_suffix [of p] by auto
    have ne: "stem p \<noteq> name p" using a stem_suffix [of p] by auto
    have t: "butlast (tail p) @ [name p] = tail p" by (rule name_wf(3) [OF wf n])
    show "ckpt_to_dir P \<noteq> Inr p"
    proof
      assume "ckpt_to_dir P = Inr p"
      with c have "p\<lparr>tail := butlast (tail p) @ [stem p]\<rparr> = p" by simp
      then have "tail (p\<lparr>tail := butlast (tail p) @ [stem p]\<rparr>) = tail p" by (rule arg_cong)
      then have "butlast (tail p) @ [stem p] = butlast (tail p) @ [name p]" by (simp add: t)
      then show False using ne by simp
    qed
  qed
  show ?thesis using A B unfolding p_def by blast
qed

theorem ckpt_to_dir_keeps_unmarked_path_witness:
  "name (Path ''ckpts/model.pt'') \<noteq> [] \<and> suffix (Path ''ckpts/model.pt'') \<noteq> ''.ckpt'' \<and>
   ckpt_to_dir ''ckpts/model.pt'' = Inr (Path ''ckpts/model.pt'') \<and>
   suffix (Path ''ckpts/step10.ckpt'') = ''.ckpt'' \<and> stem (Path ''ckpts/step10.ckpt'') \<noteq> ''.'' \<and>
   ckpt_to_dir ''ckpts/step10.ckpt'' = Inr (Path ''ckpts/step10'')"
proof -
  have h1: "name (Path ''ckpts/model.pt'') \<noteq> [] \<and> suffix (Path ''ckpts/model.pt'') \<noteq> ''.ckpt''"
    by code_simp
  have h2: "suffix (Path ''ckpts/step10.ckpt'') = ''.ckpt'' \<and> stem (Path ''ckpts/step10.ckpt'') \<noteq> ''.''"
    by code_simp
  have e: "(Path ''ckpts/step10.ckpt'')\<lparr>tail := butlast (tail (Path ''ckpts/step10.ckpt'')) @
      [stem (Path ''ckpts/step10.ckpt'')]\<rparr> = Path ''ckpts/step10''"
    by code_simp
  from h1 ckpt_to_dir_keeps_unmarked_path [of "''ckpts/model.pt''"]
  have c1: "ckpt_to_dir ''ckpts/model.pt'' = Inr (Path ''ckpts/model.pt'')" by blast
  from h2 ckpt_to_dir_keeps_unmarked_path [of "''ckpts/step10.ckpt''"]
  have "ckpt_to_dir ''ckpts/step10.ckpt'' = Inr ((Path ''ckpts/step10.ckpt'')\<lparr>tail := butlast (tail (Path ''ckpts/step10.ckpt'')) @
      [stem (Path ''ckpts/step10.ckpt'')]\<rparr>)" by blast
  then have c2: "ckpt_to_dir ''ckpts/step10.ckpt'' = Inr (Path ''ckpts/step10'')"
    unfolding e .
  from h1 h2 c1 c2 show ?thesis by blast
qed

text \<open>
  The claim as first stated, for every path whatever its extension, fails on a path
  that carries the marker: \<^verbatim>\<open>step10.ckpt\<close> resolves to \<^verbatim>\<open>step10\<close>.
\<close>

theorem ckpt_to_dir_strips_marker_counterexample:
  "ckpt_to_dir ''step10.ckpt'' = Inr (Path ''step10'') \<and> Path ''step10'' \<noteq> Path ''step10.ckpt''"
  by code_simp

text \<open>
  Claim C3. For every path whose suffix is not \<^verbatim>\<open>.ckpt\<close>, applying \<^verbatim>\<open>ckpt_to_dir\<close> to
  the string of its directory with \<^verbatim>\<open>.ckpt\<close> appended gives the same result as
  \<^verbatim>\<open>ckpt_to_dir\<close> of the path; and that result is the path itself whenever its final
  component is not empty (on an empty final component both sides raise the same
  \<^verbatim>\<open>ValueError\<close>).
\<close>

theorem ckpt_to_dir_reapplied_to_marked_result:
  "suffix (Path P) \<noteq> ''.ckpt'' \<Longrightarrow>
   (case ckpt_to_dir P of Inl e \<Rightarrow> Inl e | Inr d \<Rightarrow> ckpt_to_dir (str d @ ''.ckpt'')) = ckpt_to_dir P \<and>
   (name (Path P) \<noteq> [] \<longrightarrow> ckpt_to_dir P = Inr (Path P))"
proof
  assume s: "suffix (Path P) \<noteq> ''.ckpt''"
  show "(case ckpt_to_dir P of Inl e \<Rightarrow> Inl e | Inr d \<Rightarrow> ckpt_to_dir (str d @ ''.ckpt'')) = ckpt_to_dir P"
  proof (cases "ckpt_to_dir P")
    case (Inl e)
    then show ?thesis by simp
  next
    case (Inr d)
    then show ?thesis using ckpt_to_dir_reapply [OF Inr] by simp
  qed
  show "name (Path P) \<noteq> [] \<longrightarrow> ckpt_to_dir P = Inr (Path P)"
    using s ckpt_to_dir_unmarked [of P] by blast
qed

theorem ckpt_to_dir_reapplied_to_marked_result_witness:
  "suffix (Path ''runs/step10'') \<noteq> ''.ckpt'' \<and> name (Path ''runs/step10'') \<noteq> [] \<and>
   ckpt_to_dir ''runs/step10'' = Inr (Path ''runs/step10'') \<and>
   str (Path ''runs/step10'') @ ''.ckpt'' = ''runs/step10.ckpt'' \<and>
   ckpt_to_dir ''runs/step10.ckpt'' = ckpt_to_dir ''runs/step10''"
proof -
  have h: "suffix (Path ''runs/step10'') \<noteq> ''.ckpt''" by code_simp
  have n: "name (Path ''runs/step10'') \<noteq> []" by code_simp
  have s: "str (Path ''runs/step10'') @ ''.ckpt'' = ''runs/step10.ckpt''" by code_simp
  note t = ckpt_to_dir_reapplied_to_marked_result [OF h]
  from t n have c: "ckpt_to_dir ''runs/step10'' = Inr (Path ''runs/step10'')" by blast
  from t have "ckpt_to_dir (str (Path ''runs/step10'') @ ''.ckpt'') = ckpt_to_dir ''runs/step10''"
    unfolding c by simp
  then have "ckpt_to_dir ''runs/step10.ckpt'' = ckpt_to_dir ''runs/step10''" unfolding s .
  with h n c s show ?thesis by blast
qed


section \<open>The checkpoint store\<close>

lemma is_distributed_ckpt_eval:
  assumes "ckpt_to_dir P = Inr d"
  shows "is_distributed_ckpt dc P w =
    (if isdir (files w) (str d)
     then (check_is_distributed_checkpoint dc (files w) (str d),
           w\<lparr>trace := trace w @ [Isdir (str d), Check_is_distributed_checkpoint (str d)]\<rparr>)
     else (Inr False, w\<lparr>trace := trace w @ [Isdir (str d)]\<rparr>))"
  using assms
  by (simp add: is_distributed_ckpt_def call_isdir_def call_check_def emit_def Let_def
      split: sum.splits)

text \<open>
  Claim C1. A save without storage options, to a path whose resolved directory is a
  directory that the backend's probe reports complete, returns successfully having made
  exactly two calls, \<^verbatim>\<open>isdir\<close> and the probe: the filesystem is unchanged, no directory
  is created and the backend's \<^verbatim>\<open>save\<close> is not called, whatever the filesystem's
  \<^verbatim>\<open>makedirs\<close> and the backend's \<^verbatim>\<open>save\<close> would do. The two conditions are those under
  which \<^verbatim>\<open>is_distributed_ckpt\<close> answers true for the path.
\<close>

theorem save_checkpoint_skips_complete_checkpoint:
  assumes "ckpt_to_dir P = Inr d"
    and "isdir (files w) (str d)"
    and "check_is_distributed_checkpoint dc (files w) (str d) = Inr True"
  shows "save_checkpoint dc fs self checkpoint P None w =
    (Inr (), w\<lparr>trace := trace w @ [Isdir (str d), Check_is_distributed_checkpoint (str d)]\<rparr>) \<and>
    fst (is_distributed_ckpt dc P w) = Inr True"
  using assms
  by (simp add: save_checkpoint_def call_isdir_def call_check_def emit_def Let_def
      is_distributed_ckpt_eval)

theorem save_checkpoint_skips_complete_checkpoint_witness:
  "ckpt_to_dir ''step10.ckpt'' = Inr (Path ''step10'') \<and>
   isdir (files complete_world) (str (Path ''step10'')) \<and>
   check_is_distributed_checkpoint example_backend (files complete_world) (str (Path ''step10'')) =
     Inr True \<and>
   save_checkpoint example_backend (local_fs (Path ''/work'')) (init ''torch_dist'') (PyDict [])
     ''step10.ckpt'' (None :: unit option) complete_world =
    (Inr (), complete_world\<lparr>trace := trace complete_world @
       [Isdir (str (Path ''step10'')), Check_is_distributed_checkpoint (str (Path ''step10''))]\<rparr>) \<and>
   fst (is_distributed_ckpt example_backend ''step10.ckpt'' complete_world) = Inr True"
proof -
  have a: "ckpt_to_dir ''step10.ckpt'' = Inr (Path ''step10'')" by code_simp
  have b: "isdir (files complete_world) (str (Path ''step10''))" by code_simp
  have c: "check_is_distributed_checkpoint example_backend (files complete_world)
      (str (Path ''step10'')) = Inr True"
    by code_simp
  from a b c save_checkpoint_skips_complete_checkpoint
      [OF a b c, where fs = "local_fs (Path ''/work'')" and self = "init ''torch_dist''"
        and checkpoint = "PyDict []"]
  show ?thesis by blast
qed

text \<open>
  Claim C4. A save with storage options raises \<^verbatim>\<open>TypeError\<close>, and a load with a
  \<^verbatim>\<open>map_location\<close> raises \<^verbatim>\<open>ValueError\<close>, for every path and in every world, leaving
  the world as it was: nothing is recorded in the trace, so no existence check, no
  directory creation and no backend call was made, and since the error is the same on a
  path that \<^verbatim>\<open>ckpt_to_dir\<close> rejects, the path was not normalized either.
\<close>

theorem unsupported_option_fails_first:
  "save_checkpoint dc fs self checkpoint P (Some so) w = (Inl TypeError_storage_options, w) \<and>
   load_checkpoint dc cu Q ssd (Some ml) v = (Inl ValueError_map_location, v)"
  by (simp add: save_checkpoint_def load_checkpoint_def)

theorem unsupported_option_fails_first_witness:
  "save_checkpoint example_backend (local_fs (Path ''/work'')) (init ''torch_dist'') (PyDict []) ''/''
     (Some ()) empty_world =
     (Inl TypeError_storage_options, empty_world) \<and>
   load_checkpoint example_backend cuda2 ''missing'' None (Some ()) empty_world =
     (Inl ValueError_map_location, empty_world)"
  by (rule unsupported_option_fails_first)

text \<open>
  Claim C5. A load without \<^verbatim>\<open>map_location\<close> of a path that does not exist raises
  \<^verbatim>\<open>FileNotFoundError\<close> after the existence check alone; of a path that exists and is not
  a directory it raises the \<^verbatim>\<open>ValueError\<close> for a wrong layout after the existence and
  directory checks alone. In neither case is the backend's \<^verbatim>\<open>load\<close> called.
\<close>

theorem load_checkpoint_checks_before_backend:
  "(\<not> exists_fs (files w) P \<longrightarrow>
      load_checkpoint dc cu P ssd None w =
        (Inl (FileNotFoundError P), w\<lparr>trace := trace w @ [Exists P]\<rparr>)) \<and>
   (exists_fs (files w) P \<and> \<not> isdir (files w) P \<longrightarrow>
      load_checkpoint dc cu P ssd None w =
        (Inl (ValueError_not_a_directory P), w\<lparr>trace := trace w @ [Exists P, Isdir P]\<rparr>))"
  by (simp add: load_checkpoint_def call_exists_def call_isdir_def emit_def)

theorem load_checkpoint_checks_before_backend_witness:
  "\<not> exists_fs (files plain_file_world) ''missing'' \<and>
   load_checkpoint example_backend cuda2 ''missing'' None (None :: unit option) plain_file_world =
     (Inl (FileNotFoundError ''missing''),
      plain_file_world\<lparr>trace := trace plain_file_world @ [Exists ''missing'']\<rparr>) \<and>
   exists_fs (files plain_file_world) ''model.pt'' \<and> \<not> isdir (files plain_file_world) ''model.pt'' \<and>
   load_checkpoint example_backend cuda2 ''model.pt'' None (None :: unit option) plain_file_world =
     (Inl (ValueError_not_a_directory ''model.pt''),
      plain_file_world\<lparr>trace := trace plain_file_world @ [Exists ''model.pt'', Isdir ''model.pt'']\<rparr>)"
proof -
  have a: "\<not> exists_fs (files plain_file_world) ''missing''" by code_simp
  have b: "exists_fs (files plain_file_world) ''model.pt'' \<and> \<not> isdir (files plain_file_world) ''model.pt''"
    by code_simp
  from a b
    load_checkpoint_checks_before_backend [of plain_file_world "''missing''" example_backend cuda2 None]
    load_checkpoint_checks_before_backend [of plain_file_world "''model.pt''" example_backend cuda2 None]
  show ?thesis by blast
qed

text \<open>
  Claim C6. Every call a load makes (the existence check, the directory check, the
  backend's \<^verbatim>\<open>load\<close>) is made on the path as the caller gave it, and on an existing
  directory the result is the backend's read of that very path, passed through the
  device fix-up. In the witness the directory \<^verbatim>\<open>step10\<close> loads, while the identifier
  \<^verbatim>\<open>step10.ckpt\<close> that \<^verbatim>\<open>ckpt_to_dir\<close> would resolve to it does not exist for a load.
\<close>

theorem load_checkpoint_uses_raw_path:
  "(\<exists>evs. snd (load_checkpoint dc cu P ssd ml w) = w\<lparr>trace := trace w @ evs\<rparr> \<and>
      set evs \<subseteq> {Exists P, Isdir P, Dist_load ssd P}) \<and>
   (exists_fs (files w) P \<and> isdir (files w) P \<longrightarrow>
      load_checkpoint dc cu P ssd None w =
        (case load dc ssd P (files w) of
           Inl e \<Rightarrow> Inl e
         | Inr checkpoint \<Rightarrow> fix_tensors_device cu checkpoint,
         w\<lparr>trace := trace w @ [Exists P, Isdir P, Dist_load ssd P]\<rparr>))"
proof
  show "\<exists>evs. snd (load_checkpoint dc cu P ssd ml w) = w\<lparr>trace := trace w @ evs\<rparr> \<and>
      set evs \<subseteq> {Exists P, Isdir P, Dist_load ssd P}"
  proof (cases ml)
    case (Some m)
    then have "snd (load_checkpoint dc cu P ssd ml w) = w\<lparr>trace := trace w @ []\<rparr>"
      by (simp add: load_checkpoint_def)
    then show ?thesis by (intro exI [of _ "[]"]) simp
  next
    case None
    show ?thesis
    proof (cases "exists_fs (files w) P")
      case False
      then have "snd (load_checkpoint dc cu P ssd ml w) = w\<lparr>trace := trace w @ [Exists P]\<rparr>"
        using None by (simp add: load_checkpoint_def call_exists_def emit_def)
      then show ?thesis by (intro exI [of _ "[Exists P]"]) simp
    next
      case True
      show ?thesis
      proof (cases "isdir (files w) P")
        case False
        then have "snd (load_checkpoint dc cu P ssd ml w) = w\<lparr>trace := trace w @ [Exists P, Isdir P]\<rparr>"
          using None True by (simp add: load_checkpoint_def call_exists_def call_isdir_def emit_def)
        then show ?thesis by (intro exI [of _ "[Exists P, Isdir P]"]) simp
      next
        case isd: True
        have "snd (load_checkpoint dc cu P ssd ml w) =
            w\<lparr>trace := trace w @ [Exists P, Isdir P, Dist_load ssd P]\<rparr>"
          using None True isd
          by (simp add: load_checkpoint_def call_exists_def call_isdir_def call_load_def emit_def
              split: sum.splits)
        then show ?thesis by (intro exI [of _ "[Exists P, Isdir P, Dist_load ssd P]"]) simp
      qed
    qed
  qed
  show "exists_fs (files w) P \<and> isdir (files w) P \<longrightarrow>
      load_checkpoint dc cu P ssd None w =
        (case load dc ssd P (files w) of
           Inl e \<Rightarrow> Inl e
         | Inr checkpoint \<Rightarrow> fix_tensors_device cu checkpoint,
         w\<lparr>trace := trace w @ [Exists P, Isdir P, Dist_load ssd P]\<rparr>)"
    by (simp add: load_checkpoint_def call_exists_def call_isdir_def call_load_def emit_def
        split: sum.splits)
qed

theorem load_checkpoint_uses_raw_path_witness:
  "exists_fs (files complete_world) ''step10'' \<and> isdir (files complete_world) ''step10'' \<and>
   load_checkpoint example_backend cuda2 ''step10'' None (None :: unit option) complete_world =
     (case load example_backend None ''step10'' (files complete_world) of
        Inl e \<Rightarrow> Inl e
      | Inr checkpoint \<Rightarrow> fix_tensors_device cuda2 checkpoint,
      complete_world\<lparr>trace := trace complete_world @
        [Exists ''step10'', Isdir ''step10'', Dist_load None ''step10'']\<rparr>) \<and>
   \<not> exists_fs (files complete_world) ''step10.ckpt''"
proof -
  have a: "exists_fs (files complete_world) ''step10'' \<and> isdir (files complete_world) ''step10''"
    by code_simp
  have b: "\<not> exists_fs (files complete_world) ''step10.ckpt''" by code_simp
  from a b load_checkpoint_uses_raw_path [of example_backend cuda2 "''step10''" None None complete_world]
  show ?thesis by blast
qed

text \<open>
  Claim C7, as amended. Removing a path that does not exist succeeds after the existence
  check alone, changing nothing. Removing a path that exists makes one more call, the
  filesystem's recursive \<^verbatim>\<open>rm\<close> on that path, and ends as that call ends: its result is
  the result of \<^verbatim>\<open>rm\<close> and the filesystem is as \<^verbatim>\<open>rm\<close> left it. So when \<^verbatim>\<open>rm\<close>
  succeeds and has deleted the path, the removal succeeds and the path is absent
  afterwards; when \<^verbatim>\<open>rm\<close> raises, the error reaches the caller.
\<close>

theorem remove_checkpoint_follows_rm:
  "(\<not> exists_fs (files w) P \<longrightarrow>
      remove_checkpoint fs P w = (Inr (), w\<lparr>trace := trace w @ [Exists P]\<rparr>)) \<and>
   (exists_fs (files w) P \<longrightarrow>
      remove_checkpoint fs P w =
        (fst (rm fs (files w) P),
         w\<lparr>files := snd (rm fs (files w) P), trace := trace w @ [Exists P, Rm P]\<rparr>)) \<and>
   (exists_fs (files w) P \<and> rm fs (files w) P = (Inr (), f) \<and> \<not> exists_fs f P \<longrightarrow>
      fst (remove_checkpoint fs P w) = Inr () \<and>
      \<not> exists_fs (files (snd (remove_checkpoint fs P w))) P) \<and>
   (exists_fs (files w) P \<and> fst (rm fs (files w) P) = Inl e \<longrightarrow>
      fst (remove_checkpoint fs P w) = Inl e)"
  by (simp add: remove_checkpoint_def call_exists_def call_rm_def emit_def split: prod.splits)

theorem remove_checkpoint_follows_rm_witness:
  "exists_fs (files complete_world) ''step10/'' \<and>
   fst (rm (local_fs (Path ''/work'')) (files complete_world) ''step10/'') = Inr () \<and>
   \<not> exists_fs (snd (rm (local_fs (Path ''/work'')) (files complete_world) ''step10/'')) ''step10/'' \<and>
   fst (remove_checkpoint (local_fs (Path ''/work'')) ''step10/'' complete_world) = Inr () \<and>
   \<not> exists_fs (files (snd (remove_checkpoint (local_fs (Path ''/work'')) ''step10/'' complete_world)))
       ''step10/'' \<and>
   \<not> exists_fs (files empty_world) ''step10/'' \<and>
   remove_checkpoint (local_fs (Path ''/work'')) ''step10/'' empty_world =
     (Inr (), empty_world\<lparr>trace := trace empty_world @ [Exists ''step10/'']\<rparr>)"
proof -
  define fs where "fs = local_fs (Path ''/work'')"
  define f where "f = snd (rm fs (files complete_world) ''step10/'')"
  have a: "exists_fs (files complete_world) ''step10/''" by code_simp
  have b: "\<not> exists_fs (files empty_world) ''step10/''" by code_simp
  have r1: "fst (rm fs (files complete_world) ''step10/'') = Inr ()"
    unfolding fs_def by code_simp
  have r2: "\<not> exists_fs f ''step10/''"
    unfolding f_def fs_def by code_simp
  have r: "rm fs (files complete_world) ''step10/'' = (Inr (), f)"
    using r1 by (simp add: f_def prod_eq_iff)
  note t1 = remove_checkpoint_follows_rm [of complete_world "''step10/''" fs f]
  note t2 = remove_checkpoint_follows_rm [of empty_world "''step10/''" fs f]
  from a r r2 t1 have c: "fst (remove_checkpoint fs ''step10/'' complete_world) = Inr () \<and>
      \<not> exists_fs (files (snd (remove_checkpoint fs ''step10/'' complete_world))) ''step10/''"
    by blast
  from b t2 have e: "remove_checkpoint fs ''step10/'' empty_world =
     (Inr (), empty_world\<lparr>trace := trace empty_world @ [Exists ''step10/'']\<rparr>)" by blast
  from a r1 r2 c b e show ?thesis unfolding f_def fs_def by blast
qed

text \<open>
  The claim as first stated, that a path which exists is deleted and is absent
  afterwards, fails where the filesystem's \<^verbatim>\<open>rm\<close> raises, since \<^verbatim>\<open>remove_checkpoint\<close>
  lets the error through: the local filesystem refuses to delete the working directory,
  and the removal of \<^verbatim>\<open>/work\<close> ends in its \<^verbatim>\<open>ValueError\<close> with \<^verbatim>\<open>/work\<close> still there.
\<close>

theorem remove_checkpoint_rm_raises_counterexample:
  "exists_fs (files work_world) ''/work'' \<and>
   fst (remove_checkpoint (local_fs (Path ''/work'')) ''/work'' work_world) =
     Inl (ValueError_delete_cwd ''/work'') \<and>
   exists_fs (files (snd (remove_checkpoint (local_fs (Path ''/work'')) ''/work'' work_world))) ''/work''"
  by code_simp

section \<open>The device fix-up\<close>

lemma fix_tensors_device_initialized:
  "is_initialized cu \<Longrightarrow>
   fix_tensors_device cu ckpt =
     Inr (dict_list_map_outplace (fix_device (CUDA (current_device cu))) ckpt)"
  by (simp add: fix_tensors_device_def)

lemma dict_list_map_outplace_on_device:
  "tensors_on dev ckpt \<Longrightarrow> dict_list_map_outplace (fix_device dev) ckpt = ckpt"
proof (induction ckpt)
  case (PyDict kvs)
  have "map (map_prod id (dict_list_map_outplace (fix_device dev))) kvs = map id kvs"
  proof (rule map_cong [OF refl])
    fix kv assume kv: "kv \<in> set kvs"
    obtain k v where e: "kv = (k, v)" by (cases kv)
    have "tensors_on dev v" using PyDict.prems kv by (auto simp: list_all_iff e)
    then have "dict_list_map_outplace (fix_device dev) v = v"
      using PyDict.IH [of kv v] kv by (simp add: e)
    then show "map_prod id (dict_list_map_outplace (fix_device dev)) kv = id kv"
      by (simp add: e)
  qed
  then show ?case by simp
next
  case (PyList xs)
  have "map (dict_list_map_outplace (fix_device dev)) xs = map id xs"
    using PyList by (intro map_cong [OF refl]) (auto simp: list_all_iff)
  then show ?case by simp
next
  case (PyTensor d x)
  then show ?case by simp
next
  case (PyOther s)
  then show ?case by simp
qed

text \<open>
  Claim C8. In a process whose CUDA runtime is initialized, \<^verbatim>\<open>_fix_tensors_device\<close>
  returns a new payload of the same shape: a dict keeps its keys in order and a list its
  length, each value being the fix-up of the value it replaces; a leaf that is not a
  tensor is returned as it is; a tensor that is not on a CUDA device, or is on the
  current one, is returned as it is; a tensor on another CUDA device is replaced by a
  tensor with the same contents on the current device. A payload all of whose tensors
  are on the current device is returned equal to the input.
\<close>

theorem fix_tensors_device_relocates:
  assumes "is_initialized cu"
  shows "fix_tensors_device cu (PyOther s) = Inr (PyOther s) \<and>
    (\<not> is_cuda d \<or> d = CUDA (current_device cu) \<longrightarrow>
       fix_tensors_device cu (PyTensor d x) = Inr (PyTensor d x)) \<and>
    (is_cuda d \<and> d \<noteq> CUDA (current_device cu) \<longrightarrow>
       fix_tensors_device cu (PyTensor d x) = Inr (PyTensor (CUDA (current_device cu)) x)) \<and>
    fix_tensors_device cu (PyDict kvs) =
       Inr (PyDict (map (map_prod id (\<lambda>v. projr (fix_tensors_device cu v))) kvs)) \<and>
    fix_tensors_device cu (PyList xs) =
       Inr (PyList (map (\<lambda>v. projr (fix_tensors_device cu v)) xs)) \<and>
    (tensors_on (CUDA (current_device cu)) ckpt \<longrightarrow> fix_tensors_device cu ckpt = Inr ckpt)"
proof -
  have p: "(\<lambda>v. projr (fix_tensors_device cu v)) =
      dict_list_map_outplace (fix_device (CUDA (current_device cu)))"
    using assms by (simp add: fix_tensors_device_def fun_eq_iff)
  show ?thesis
    unfolding p using assms
    by (auto simp: fix_tensors_device_initialized dict_list_map_outplace_on_device)
qed

theorem fix_tensors_device_relocates_witness:
  "is_initialized cuda2 \<and>
   fix_tensors_device cuda2
     (PyDict [(''w'', PyTensor (CUDA 0) (7::nat)), (''b'', PyList [PyTensor CPU 3, PyTensor (CUDA 2) 4]),
              (''step'', PyOther ''10'')]) =
   Inr (PyDict [(''w'', PyTensor (CUDA 2) 7), (''b'', PyList [PyTensor CPU 3, PyTensor (CUDA 2) 4]),
              (''step'', PyOther ''10'')]) \<and>
   tensors_on (CUDA (current_device cuda2)) (PyDict [(''w'', PyTensor (CUDA 2) (7::nat))]) \<and>
   fix_tensors_device cuda2 (PyDict [(''w'', PyTensor (CUDA 2) (7::nat))]) =
     Inr (PyDict [(''w'', PyTensor (CUDA 2) 7)])"
proof -
  have i: "is_initialized cuda2" by (simp add: cuda2_def)
  have c: "current_device cuda2 = 2" by (simp add: cuda2_def)
  have t: "tensors_on (CUDA (current_device cuda2)) (PyDict [(''w'', PyTensor (CUDA 2) (7::nat))])"
    by (simp add: c)
  define kvs :: "(string \<times> nat pyobj) list" where
    "kvs = [(''w'', PyTensor (CUDA 0) 7), (''b'', PyList [PyTensor CPU 3, PyTensor (CUDA 2) 4]),
            (''step'', PyOther ''10'')]"
  define xs :: "nat pyobj list" where "xs = [PyTensor CPU 3, PyTensor (CUDA 2) 4]"
  define ck :: "nat pyobj" where "ck = PyDict [(''w'', PyTensor (CUDA 2) 7)]"
  note T = fix_tensors_device_relocates [OF i]
  note T0 = T [where s = "''10''" and d = "CUDA 0" and x = "7::nat" and kvs = kvs and xs = xs and ckpt = ck]
  note T1 = T [where s = "''10''" and d = "CPU" and x = "3::nat" and kvs = kvs and xs = xs and ckpt = ck]
  note T2 = T [where s = "''10''" and d = "CUDA 2" and x = "4::nat" and kvs = kvs and xs = xs and ckpt = ck]
  from T0 have "is_cuda (CUDA 0) \<and> CUDA 0 \<noteq> CUDA (current_device cuda2) \<longrightarrow>
      fix_tensors_device cuda2 (PyTensor (CUDA 0) (7::nat)) =
        Inr (PyTensor (CUDA (current_device cuda2)) 7)"
    by blast
  then have w: "fix_tensors_device cuda2 (PyTensor (CUDA 0) (7::nat)) = Inr (PyTensor (CUDA 2) 7)"
    by (simp add: c)
  from T1 have "\<not> is_cuda CPU \<or> CPU = CUDA (current_device cuda2) \<longrightarrow>
      fix_tensors_device cuda2 (PyTensor CPU (3::nat)) = Inr (PyTensor CPU 3)"
    by blast
  then have b1: "fix_tensors_device cuda2 (PyTensor CPU (3::nat)) = Inr (PyTensor CPU 3)"
    by simp
  from T2 have "\<not> is_cuda (CUDA 2) \<or> CUDA 2 = CUDA (current_device cuda2) \<longrightarrow>
      fix_tensors_device cuda2 (PyTensor (CUDA 2) (4::nat)) = Inr (PyTensor (CUDA 2) 4)"
    by blast
  then have b2: "fix_tensors_device cuda2 (PyTensor (CUDA 2) (4::nat)) = Inr (PyTensor (CUDA 2) 4)"
    by (simp add: c)
  from T0 have s: "fix_tensors_device cuda2 (PyOther ''10'' :: nat pyobj) = Inr (PyOther ''10'')"
    by blast
  have "fix_tensors_device cuda2 (PyList xs) =
      Inr (PyList (map (\<lambda>v. projr (fix_tensors_device cuda2 v)) xs))"
    using T0 by blast
  then have b: "fix_tensors_device cuda2 (PyList [PyTensor CPU (3::nat), PyTensor (CUDA 2) 4]) =
      Inr (PyList [PyTensor CPU 3, PyTensor (CUDA 2) 4])"
    by (simp add: xs_def b1 b2)
  have "fix_tensors_device cuda2 (PyDict kvs) =
       Inr (PyDict (map (map_prod id (\<lambda>v. projr (fix_tensors_device cuda2 v))) kvs))"
    using T0 by blast
  then have full: "fix_tensors_device cuda2
     (PyDict [(''w'', PyTensor (CUDA 0) (7::nat)), (''b'', PyList [PyTensor CPU 3, PyTensor (CUDA 2) 4]),
              (''step'', PyOther ''10'')]) =
   Inr (PyDict [(''w'', PyTensor (CUDA 2) 7), (''b'', PyList [PyTensor CPU 3, PyTensor (CUDA 2) 4]),
              (''step'', PyOther ''10'')])"
    by (simp add: kvs_def w b s)
  have noop: "fix_tensors_device cuda2 (PyDict [(''w'', PyTensor (CUDA 2) (7::nat))]) =
     Inr (PyDict [(''w'', PyTensor (CUDA 2) 7)])"
    using T0 t unfolding ck_def by blast
  from i full t noop show ?thesis by blast
qed


section \<open>The existence oracle\<close>

text \<open>
  Claim C9, as amended. For every path that \<^verbatim>\<open>ckpt_to_dir\<close> resolves: when the
  resolved directory is absent, or is not a directory, \<^verbatim>\<open>is_distributed_ckpt\<close> returns
  false without raising and without calling the backend's probe; when the probe returns
  on a resolved directory, \<^verbatim>\<open>is_distributed_ckpt\<close> returns true exactly when the
  resolved directory exists, is a directory, and the probe confirms it; when the probe
  raises on a resolved directory, the error reaches the caller. The filesystem is never
  changed.
\<close>

theorem is_distributed_ckpt_on_resolved_directory:
  assumes "ckpt_to_dir P = Inr d"
  shows "(\<not> isdir (files w) (str d) \<longrightarrow>
       is_distributed_ckpt dc P w = (Inr False, w\<lparr>trace := trace w @ [Isdir (str d)]\<rparr>)) \<and>
    (\<not> exists_fs (files w) (str d) \<longrightarrow> fst (is_distributed_ckpt dc P w) = Inr False) \<and>
    ((isdir (files w) (str d) \<longrightarrow> check_is_distributed_checkpoint dc (files w) (str d) = Inr b) \<longrightarrow>
       fst (is_distributed_ckpt dc P w) =
         Inr (exists_fs (files w) (str d) \<and> isdir (files w) (str d) \<and> b)) \<and>
    (isdir (files w) (str d) \<and> check_is_distributed_checkpoint dc (files w) (str d) = Inl e \<longrightarrow>
       fst (is_distributed_ckpt dc P w) = Inl e) \<and>
    files (snd (is_distributed_ckpt dc P w)) = files w"
  by (auto simp: is_distributed_ckpt_eval [OF assms] exists_fs_def isdir_def)

theorem is_distributed_ckpt_on_resolved_directory_witness:
  "ckpt_to_dir ''step10.ckpt'' = Inr (Path ''step10'') \<and>
   check_is_distributed_checkpoint example_backend (files complete_world) (str (Path ''step10'')) =
     Inr True \<and>
   fst (is_distributed_ckpt example_backend ''step10.ckpt'' complete_world) = Inr True \<and>
   ckpt_to_dir ''step11.ckpt'' = Inr (Path ''step11'') \<and>
   \<not> exists_fs (files complete_world) (str (Path ''step11'')) \<and>
   fst (is_distributed_ckpt example_backend ''step11.ckpt'' complete_world) = Inr False"
proof -
  have a: "ckpt_to_dir ''step10.ckpt'' = Inr (Path ''step10'')" by code_simp
  have b: "ckpt_to_dir ''step11.ckpt'' = Inr (Path ''step11'')" by code_simp
  have e: "exists_fs (files complete_world) (str (Path ''step10'')) \<and>
      isdir (files complete_world) (str (Path ''step10''))"
    by code_simp
  have c: "check_is_distributed_checkpoint example_backend (files complete_world)
      (str (Path ''step10'')) = Inr True"
    by code_simp
  have n: "\<not> exists_fs (files complete_world) (str (Path ''step11''))" by code_simp
  from is_distributed_ckpt_on_resolved_directory
    [OF a, where dc = example_backend and w = complete_world and b = True] e c
  have t: "fst (is_distributed_ckpt example_backend ''step10.ckpt'' complete_world) = Inr True"
    by simp
  from is_distributed_ckpt_on_resolved_directory
    [OF b, where dc = example_backend and w = complete_world and b = True] n
  have f: "fst (is_distributed_ckpt example_backend ''step11.ckpt'' complete_world) = Inr False"
    by blast
  from a c t b n f show ?thesis by blast
qed

text \<open>
  The claim as first stated, for every path, fails where \<^verbatim>\<open>ckpt_to_dir\<close> raises, since
  \<^verbatim>\<open>is_distributed_ckpt\<close> lets the error through: on the absent path \<^verbatim>\<open>..ckpt\<close> (suffix
  \<^verbatim>\<open>.ckpt\<close>, stem \<^verbatim>\<open>.\<close>, which \<^verbatim>\<open>with_name\<close> rejects) and on a path with no final
  component such as \<^verbatim>\<open>/\<close>, it raises \<^verbatim>\<open>ValueError\<close> instead of returning false. It
  fails as well where the probe raises: on the directory \<^verbatim>\<open>step10\<close> whose
  \<^verbatim>\<open>metadata.json\<close> cannot be opened, the probe's error is the outcome.
\<close>

theorem is_distributed_ckpt_raises_counterexample:
  "\<not> exists_fs (files empty_world) ''..ckpt'' \<and>
   is_distributed_ckpt example_backend ''..ckpt'' empty_world =
     (Inl (ValueError_invalid_name ''.''), empty_world) \<and>
   is_distributed_ckpt example_backend ''/'' empty_world = (Inl ValueError_empty_name, empty_world) \<and>
   isdir (files broken_world) ''step10'' \<and>
   fst (is_distributed_ckpt example_backend ''step10'' broken_world) =
     Inl (BackendError ''IsADirectoryError'')"
proof -
  have a: "\<not> exists_fs (files empty_world) ''..ckpt''" by code_simp
  have b: "ckpt_to_dir ''..ckpt'' = Inl (ValueError_invalid_name ''.'')" by code_simp
  have c: "ckpt_to_dir ''/'' = Inl ValueError_empty_name" by code_simp
  have d: "isdir (files broken_world) ''step10''" by code_simp
  have e: "fst (is_distributed_ckpt example_backend ''step10'' broken_world) =
     Inl (BackendError ''IsADirectoryError'')" by code_simp
  show ?thesis using a d e by (simp add: is_distributed_ckpt_def b c)
qed

text \<open>
  Claim C10, as amended. For every path that \<^verbatim>\<open>ckpt_to_dir\<close> resolves to a directory
  whose own suffix is not \<^verbatim>\<open>.ckpt\<close>, \<^verbatim>\<open>is_distributed_ckpt\<close> gives the same answer, and
  makes the same calls, on the path and on its resolved directory; every call it makes is
  on the resolved directory; and when the path carries the marker, the directory probed
  is not the path itself.
\<close>

theorem is_distributed_ckpt_of_resolved_directory:
  assumes "ckpt_to_dir P = Inr d" and "suffix d \<noteq> ''.ckpt''"
  shows "is_distributed_ckpt dc (str d) w = is_distributed_ckpt dc P w \<and>
    (\<exists>evs. snd (is_distributed_ckpt dc P w) = w\<lparr>trace := trace w @ evs\<rparr> \<and>
       set evs \<subseteq> {Isdir (str d), Check_is_distributed_checkpoint (str d)}) \<and>
    (suffix (Path P) = ''.ckpt'' \<longrightarrow> Path (str d) \<noteq> Path P)"
proof (intro conjI impI)
  have s: "ckpt_to_dir (str d) = Inr d" by (rule ckpt_to_dir_str [OF assms])
  show "is_distributed_ckpt dc (str d) w = is_distributed_ckpt dc P w"
    by (simp add: is_distributed_ckpt_eval [OF s] is_distributed_ckpt_eval [OF assms(1)])
  show "\<exists>evs. snd (is_distributed_ckpt dc P w) = w\<lparr>trace := trace w @ evs\<rparr> \<and>
       set evs \<subseteq> {Isdir (str d), Check_is_distributed_checkpoint (str d)}"
  proof (cases "isdir (files w) (str d)")
    case True
    then have "snd (is_distributed_ckpt dc P w) =
        w\<lparr>trace := trace w @ [Isdir (str d), Check_is_distributed_checkpoint (str d)]\<rparr>"
      by (simp add: is_distributed_ckpt_eval [OF assms(1)])
    then show ?thesis
      by (intro exI [of _ "[Isdir (str d), Check_is_distributed_checkpoint (str d)]"]) simp
  next
    case False
    then have "snd (is_distributed_ckpt dc P w) = w\<lparr>trace := trace w @ [Isdir (str d)]\<rparr>"
      by (simp add: is_distributed_ckpt_eval [OF assms(1)])
    then show ?thesis by (intro exI [of _ "[Isdir (str d)]"]) simp
  qed
next
  assume m: "suffix (Path P) = ''.ckpt''"
  note r = ckpt_to_dir_result [OF assms(1)]
  have "Path (str d) = d" by (rule Path_str [OF r(1,2)])
  moreover have "d \<noteq> Path P" using assms(2) m by auto
  ultimately show "Path (str d) \<noteq> Path P" by simp
qed

theorem is_distributed_ckpt_of_resolved_directory_witness:
  "ckpt_to_dir ''step10.ckpt'' = Inr (Path ''step10'') \<and> suffix (Path ''step10'') \<noteq> ''.ckpt'' \<and>
   str (Path ''step10'') = ''step10'' \<and>
   is_distributed_ckpt example_backend ''step10'' complete_world =
     is_distributed_ckpt example_backend ''step10.ckpt'' complete_world \<and>
   suffix (Path ''step10.ckpt'') = ''.ckpt'' \<and> Path ''step10'' \<noteq> Path ''step10.ckpt''"
proof -
  have a: "ckpt_to_dir ''step10.ckpt'' = Inr (Path ''step10'')" by code_simp
  have b: "suffix (Path ''step10'') \<noteq> ''.ckpt''" by code_simp
  have s: "str (Path ''step10'') = ''step10''" by code_simp
  have m: "suffix (Path ''step10.ckpt'') = ''.ckpt''" by code_simp
  note t = is_distributed_ckpt_of_resolved_directory [OF a b, of example_backend complete_world]
  from t have "is_distributed_ckpt example_backend (str (Path ''step10'')) complete_world =
     is_distributed_ckpt example_backend ''step10.ckpt'' complete_world" by blast
  then have e: "is_distributed_ckpt example_backend ''step10'' complete_world =
     is_distributed_ckpt example_backend ''step10.ckpt'' complete_world" unfolding s .
  from t m have "Path (str (Path ''step10'')) \<noteq> Path ''step10.ckpt''" by blast
  then have n: "Path ''step10'' \<noteq> Path ''step10.ckpt''" unfolding s .
  from a b s e m n show ?thesis by blast
qed

text \<open>
  The claim as first stated, for every path, fails on a doubled marker: where the
  complete checkpoint directory is named \<^verbatim>\<open>a.ckpt\<close>, the path \<^verbatim>\<open>a.ckpt.ckpt\<close> resolves to
  it and is classified true, while its resolved directory \<^verbatim>\<open>a.ckpt\<close>, given to
  \<^verbatim>\<open>is_distributed_ckpt\<close> in turn, is stripped once more to \<^verbatim>\<open>a\<close> and classified false.
\<close>

theorem is_distributed_ckpt_doubled_marker_counterexample:
  "fst (is_distributed_ckpt example_backend ''a.ckpt.ckpt'' doubled_marker_world) = Inr True \<and>
   ckpt_to_dir ''a.ckpt.ckpt'' = Inr (Path ''a.ckpt'') \<and> str (Path ''a.ckpt'') = ''a.ckpt'' \<and>
   fst (is_distributed_ckpt example_backend ''a.ckpt'' doubled_marker_world) = Inr False"
proof -
  have a: "ckpt_to_dir ''a.ckpt.ckpt'' = Inr (Path ''a.ckpt'')" by code_simp
  have b: "ckpt_to_dir ''a.ckpt'' = Inr (Path ''a'')" by code_simp
  have s: "str (Path ''a.ckpt'') = ''a.ckpt''" by code_simp
  have e1: "isdir (files doubled_marker_world) (str (Path ''a.ckpt'')) \<and>
      check_is_distributed_checkpoint example_backend (files doubled_marker_world)
        (str (Path ''a.ckpt'')) = Inr True"
    by code_simp
  have e2: "\<not> isdir (files doubled_marker_world) (str (Path ''a''))" by code_simp
  show ?thesis
    using e1 e2 s a by (simp add: is_distributed_ckpt_eval [OF a] is_distributed_ckpt_eval [OF b])
qed

end
